theory Spec2Isabelle
  imports Main "HOL-Library.Sublist"
begin

section \<open>Strings\<close>

text \<open>
  The request path is the text of the request line, which the library decodes as
  ISO-8859-1: one \<^typ>\<open>char\<close> per character. \<open>startswith s p\<close> is Python's
  \<^verbatim>\<open>s.startswith(p)\<close> and \<open>contains sub s\<close> is \<^verbatim>\<open>sub in s\<close>.
\<close>

fun startswith :: "string \<Rightarrow> string \<Rightarrow> bool" where
  "startswith s [] = True"
| "startswith [] (c # p) = False"
| "startswith (x # s) (c # p) = (x = c \<and> startswith s p)"

fun contains :: "string \<Rightarrow> string \<Rightarrow> bool" where
  "contains sub [] = (sub = [])"
| "contains sub (x # s) = (startswith (x # s) sub \<or> contains sub s)"

section \<open>The request handler\<close>

text \<open>
  \<open>CustomHTTPRequestHandler\<close> extends the standard library's
  \<open>SimpleHTTPRequestHandler\<close>. A handler object is modelled by the three attributes the
  methods below read and write: the request path, the buffer of header lines queued and
  not yet sent, and the output file of the connection. The output is kept structured:
  a block of header lines flushed together, or bytes written directly.
\<close>

datatype line = Status nat | Header string string

datatype chunk = Head "line list" | Data string

record handler =
  path :: string
  headers_buffer :: "line list"
  wfile :: "chunk list"

text \<open>
  The inherited \<open>do_GET\<close> serves a file under \<open>public\<close>. It acts on the handler only
  by calling the handler's methods and writing to its output file, so it is given as the
  sequence of calls it makes for a path (it depends on the file system, which is not
  modelled). The calls go through \<open>self\<close>: an overridden method is the one that runs.
\<close>

datatype call = Send_response nat | Send_header string string | End_headers | Write string

text \<open>
  What the model takes from the standard library: the values of the \<open>Server\<close> and
  \<open>Date\<close> headers that \<open>send_response\<close> queues, and the inherited \<open>do_GET\<close>.
\<close>

record stdlib =
  version_string :: string
  date_time_string :: string
  super_do_GET :: "string \<Rightarrow> call list"

subsection \<open>Inherited methods\<close>

text \<open>
  The methods of \<open>BaseHTTPRequestHandler\<close> that the handler calls, for a request of
  HTTP/1.x (for the header-less HTTP/0.9 the library sends no status line and no header
  at all). \<open>send_response\<close> queues the status line and the \<open>Server\<close> and \<open>Date\<close>
  headers, \<open>send_header\<close> queues one header, the inherited \<open>end_headers\<close> sends what
  is queued as one block and empties the buffer.
\<close>

definition send_header :: "string \<Rightarrow> string \<Rightarrow> handler \<Rightarrow> handler" where
  "send_header keyword v h = h\<lparr>headers_buffer := headers_buffer h @ [Header keyword v]\<rparr>"

definition send_response :: "stdlib \<Rightarrow> nat \<Rightarrow> handler \<Rightarrow> handler" where
  "send_response lib code h =
     (let h1 = h\<lparr>headers_buffer := headers_buffer h @ [Status code]\<rparr>;
          h2 = send_header ''Server'' (version_string lib) h1
      in send_header ''Date'' (date_time_string lib) h2)"

definition super_end_headers :: "handler \<Rightarrow> handler" where
  "super_end_headers h = h\<lparr>wfile := wfile h @ [Head (headers_buffer h)], headers_buffer := []\<rparr>"

definition wfile_write :: "string \<Rightarrow> handler \<Rightarrow> handler" where
  "wfile_write s h = h\<lparr>wfile := wfile h @ [Data s]\<rparr>"

subsection \<open>Methods of \<open>CustomHTTPRequestHandler\<close>\<close>

definition end_headers :: "handler \<Rightarrow> handler" where
  "end_headers h =
     (let h1 = send_header ''Cache-Control'' ''no-cache, no-store, must-revalidate'' h;
          h2 = send_header ''Pragma'' ''no-cache'' h1;
          h3 = send_header ''Expires'' ''0'' h2
      in super_end_headers h3)"

definition mock_data :: "string \<Rightarrow> string" where
  \<open>mock_data p =
     (if contains ''/api/csv/sessions'' p then
        ''{"success": true, "sessions": []}''
      else if contains ''/api/hardware'' p then
        ''{"success": true, "hardware": {"debuggers": [], "platforms": []}}''
      else if contains ''/api/machines'' p then
        ''{"success": true, "machines": []}''
      else if contains ''/api/schedule'' p then
        ''{"success": true, "schedule": {"timeSlots": [], "assignments": []}}''
      else
        ''{"success": false, "error": "Node.js backend not available"}'')\<close>

definition handle_api_request :: "stdlib \<Rightarrow> handler \<Rightarrow> handler" where
  "handle_api_request lib h =
     (let h1 = send_response lib 200 h;
          h2 = send_header ''Content-type'' ''application/json'' h1;
          h3 = end_headers h2
      in wfile_write (mock_data (path h3)) h3)"

definition mock_socketio :: string where
  \<open>mock_socketio =
     ''\<newline>'' @
     ''        window.io = function() {\<newline>'' @
     ''            return {\<newline>'' @
     ''                on: function(event, callback) {\<newline>'' @
     ''                    console.log("Mock Socket.IO: Listening for", event);\<newline>'' @
     ''                    if (event === 'connect') {\<newline>'' @
     ''                        setTimeout(() => callback(), 100);\<newline>'' @
     ''                    }\<newline>'' @
     ''                },\<newline>'' @
     ''                emit: function(event, data) {\<newline>'' @
     ''                    console.log("Mock Socket.IO: Emitting", event, data);\<newline>'' @
     ''                }\<newline>'' @
     ''            };\<newline>'' @
     ''        };\<newline>'' @
     ''        ''\<close>

definition send_mock_socketio :: "stdlib \<Rightarrow> handler \<Rightarrow> handler" where
  "send_mock_socketio lib h =
     (let h1 = send_response lib 200 h;
          h2 = send_header ''Content-type'' ''application/javascript'' h1;
          h3 = end_headers h2
      in wfile_write mock_socketio h3)"

text \<open>Running the inherited \<open>do_GET\<close>: each call dispatches on the handler's class.\<close>

fun run_call :: "stdlib \<Rightarrow> call \<Rightarrow> handler \<Rightarrow> handler" where
  "run_call lib (Send_response code) h = send_response lib code h"
| "run_call lib (Send_header keyword v) h = send_header keyword v h"
| "run_call lib End_headers h = end_headers h"
| "run_call lib (Write s) h = wfile_write s h"

definition do_GET :: "stdlib \<Rightarrow> handler \<Rightarrow> handler" where
  "do_GET lib h0 =
     (let h = (if path h0 = ''/'' then h0\<lparr>path := ''/index.html''\<rparr> else h0)
      in if startswith (path h) ''/api/'' then handle_api_request lib h
         else if startswith (path h) ''/socket.io/'' then send_mock_socketio lib h
         else fold (run_call lib) (super_do_GET lib (path h)) h)"

text \<open>
  A GET request for a path: the handler as it is when \<open>do_GET\<close> is called, with nothing
  queued and nothing written; the response is what \<open>do_GET\<close> leaves in the output file.
\<close>

definition request :: "string \<Rightarrow> handler" where
  "request p = \<lparr>path = p, headers_buffer = [], wfile = []\<rparr>"

definition respond :: "stdlib \<Rightarrow> string \<Rightarrow> chunk list" where
  "respond lib p = wfile (do_GET lib (request p))"

text \<open>
  The three cache headers, the header block of the two mock branches for a content
  type, and the test for a header block.
\<close>

fun is_head :: "chunk \<Rightarrow> bool" where
  "is_head (Head ls) = True"
| "is_head (Data s) = False"

definition no_cache :: "line list" where
  "no_cache =
     [Header ''Cache-Control'' ''no-cache, no-store, must-revalidate'',
      Header ''Pragma'' ''no-cache'',
      Header ''Expires'' ''0'']"

definition mock_head :: "stdlib \<Rightarrow> string \<Rightarrow> chunk" where
  "mock_head lib ctype =
     Head ([Status 200,
            Header ''Server'' (version_string lib),
            Header ''Date'' (date_time_string lib),
            Header ''Content-type'' ctype] @ no_cache)"

text \<open>
  The dispatch table as the specification words it: the four sub-paths in their fixed
  sequence, each with its body; the first one that occurs in the path selects the body,
  and a path with none of them gets the failure body. Occurrence is the library's
  \<^const>\<open>sublist\<close>.
\<close>

definition spec_api_sequence :: "(string \<times> string) list" where
  \<open>spec_api_sequence =
     [(''/api/csv/sessions'', ''{"success": true, "sessions": []}''),
      (''/api/hardware'', ''{"success": true, "hardware": {"debuggers": [], "platforms": []}}''),
      (''/api/machines'', ''{"success": true, "machines": []}''),
      (''/api/schedule'', ''{"success": true, "schedule": {"timeSlots": [], "assignments": []}}'')]\<close>

definition spec_first_match :: "string \<Rightarrow> string" where
  \<open>spec_first_match p =
     (case find (\<lambda>(sub, body). sublist sub p) spec_api_sequence of
        Some (sub, body) \<Rightarrow> body
      | None \<Rightarrow> ''{"success": false, "error": "Node.js backend not available"}'')\<close>

text \<open>
  An instance of the library for the examples: a \<open>public\<close> directory that holds only
  \<open>index.html\<close>; any other file is answered with the library's error page.
\<close>

definition example_lib :: stdlib where
  "example_lib =
     \<lparr>version_string = ''SimpleHTTP/0.6 Python/3.12.3'',
      date_time_string = ''Wed, 04 Nov 2026 12:00:00 GMT'',
      super_do_GET = (\<lambda>p.
        if p = ''/index.html'' then
          [Send_response 200,
           Send_header ''Content-type'' ''text/html'',
           Send_header ''Content-Length'' ''13'',
           End_headers,
           Write ''<html></html>'']
        else
          [Send_response 404,
           Send_header ''Connection'' ''close'',
           Send_header ''Content-Type'' ''text/html;charset=utf-8'',
           Send_header ''Content-Length'' ''9'',
           End_headers,
           Write ''Not found''])\<rparr>"

section \<open>Starting the server\<close>

subsection \<open>Text\<close>

text \<open>
  Text printed to standard output is modelled by its UTF-8 bytes. The pictographs of the
  messages are named here; \<open>str_int\<close> is the decimal text of an integer, as an f-string
  formats it.
\<close>

definition rocket :: string where "rocket = [CHR 0xF0, CHR 0x9F, CHR 0x9A, CHR 0x80]"
definition file_folder :: string where "file_folder = [CHR 0xF0, CHR 0x9F, CHR 0x93, CHR 0x81]"
definition globe :: string where "globe = [CHR 0xF0, CHR 0x9F, CHR 0x8C, CHR 0x90]"
definition warning_sign :: string where
  "warning_sign = [CHR 0xE2, CHR 0x9A, CHR 0xA0, CHR 0xEF, CHR 0xB8, CHR 0x8F]"
definition open_book :: string where "open_book = [CHR 0xF0, CHR 0x9F, CHR 0x93, CHR 0x96]"
definition link_symbol :: string where "link_symbol = [CHR 0xF0, CHR 0x9F, CHR 0x94, CHR 0x97]"
definition stop_button :: string where
  "stop_button = [CHR 0xE2, CHR 0x8F, CHR 0xB9, CHR 0xEF, CHR 0xB8, CHR 0x8F]"
definition cross_mark :: string where "cross_mark = [CHR 0xE2, CHR 0x9D, CHR 0x8C]"
definition light_bulb :: string where "light_bulb = [CHR 0xF0, CHR 0x9F, CHR 0x92, CHR 0xA1]"
definition waving_hand :: string where "waving_hand = [CHR 0xF0, CHR 0x9F, CHR 0x91, CHR 0x8B]"

function str_nat :: "nat \<Rightarrow> string" where
  "str_nat n =
     (if n < 10 then [''0123456789'' ! n]
      else str_nat (n div 10) @ [''0123456789'' ! (n mod 10)])"
  by pat_completeness auto
termination
  by (relation "measure id") auto

declare str_nat.simps [simp del]

definition str_int :: "int \<Rightarrow> string" where
  "str_int i = (if i < 0 then ''-'' @ str_nat (nat (- i)) else str_nat (nat i))"

subsection \<open>Exceptions, effects and the environment\<close>

text \<open>
  The exceptions that reach \<open>start_server\<close> and the main block. An \<open>OSError\<close> (any of its
  subclasses) carries \<open>errno\<close>, which is \<open>None\<close> when it was built from a message alone,
  and its message; \<open>str_OSError\<close> is \<open>str(e)\<close> for an error without a file name.
\<close>

datatype exn = OSError "int option" string | KeyboardInterrupt | ValueError | OverflowError

definition str_OSError :: "int option \<Rightarrow> string \<Rightarrow> string" where
  "str_OSError errno strerror =
     (case errno of
        Some n \<Rightarrow> ''[Errno '' @ str_int n @ ''] '' @ strerror
      | None \<Rightarrow> strerror)"

text \<open>
  What a run does, in order: the attempt to bind the listening socket to a port, a line
  printed, the attempt to open a browser at a URL, the entry into the serving loop, and
  the closing of the socket when the \<open>with\<close> block is left.
\<close>

datatype effect = Bind int | Print string | Open_browser string | Serve_forever | Server_close

text \<open>
  A run returns, ends in an exception that nothing caught, or serves forever.
\<close>

datatype outcome = Returned | Raised exn | Runs_forever

text \<open>
  What the model takes from the interpreter and the operating system: the built-in
  \<open>int\<close> on a string (\<open>None\<close> when it raises \<open>ValueError\<close>), the absolute path of
  \<open>public\<close>, the exception (if any) that creating the server on a port raises, the
  exception (if any) that opening the browser raises, and the exception that ends
  \<open>serve_forever\<close> (\<open>None\<close> when it never ends: it has no normal return). Printing is
  taken to succeed.
\<close>

record env =
  py_int :: "string \<Rightarrow> int option"
  abspath_public :: string
  server_bind :: "int \<Rightarrow> exn option"
  webbrowser_open :: "string \<Rightarrow> exn option"
  serve_forever :: "exn option"

subsection \<open>\<open>start_server\<close> and the main block\<close>

text \<open>The \<open>except\<close> clauses of \<open>start_server\<close>, applied to an exception of its \<open>try\<close> body.\<close>

definition except_clauses :: "int \<Rightarrow> exn \<Rightarrow> effect list \<times> outcome" where
  "except_clauses port e =
     (case e of
        OSError errno strerror \<Rightarrow>
          if errno = Some 48 then
            ([Print (cross_mark @ '' Port '' @ str_int port @ '' is already in use''),
              Print (light_bulb @ '' Try a different port: python3 simple_server.py 3001'')],
             Returned)
          else
            ([Print (cross_mark @ '' Error starting server: '' @ str_OSError errno strerror)],
             Returned)
      | KeyboardInterrupt \<Rightarrow>
          ([Print (''\<newline>'' @ waving_hand @ '' Server stopped'')], Returned)
      | ValueError \<Rightarrow> ([], Raised e)
      | OverflowError \<Rightarrow> ([], Raised e))"

definition start_server :: "env \<Rightarrow> int \<Rightarrow> effect list \<times> outcome" where
  "start_server env port =
     (case server_bind env port of
        Some e \<Rightarrow>
          (let (out, r) = except_clauses port e in (Bind port # out, r))
      | None \<Rightarrow>
          (let url = ''http://localhost:'' @ str_int port;
               banner =
                 [Print (rocket @ '' Jenkins Test Scheduler (Frontend Only)''),
                  Print (file_folder @ '' Serving files from: '' @ abspath_public env),
                  Print (globe @ '' Server running at: http://localhost:'' @ str_int port),
                  Print (warning_sign @ ''  Note: Backend functionality requires Node.js''),
                  Print (open_book @ '' See README.md for full setup instructions''),
                  Print (''\<newline>'' @ link_symbol @ '' Opening browser...'')];
               browser =
                 Open_browser url #
                 (case webbrowser_open env url of
                    None \<Rightarrow> []
                  | Some _ \<Rightarrow> [Print ''Could not open browser automatically'']);
               serving =
                 [Print (''\<newline>'' @ stop_button @ ''  Press Ctrl+C to stop the server''),
                  Serve_forever];
               body = Bind port # banner @ browser @ serving
           in case serve_forever env of
                None \<Rightarrow> (body, Runs_forever)
              | Some e \<Rightarrow>
                  (let (out, r) = except_clauses port e in (body @ Server_close # out, r))))"

definition main :: "env \<Rightarrow> string list \<Rightarrow> effect list \<times> outcome" where
  "main env argv =
     (if length argv > 1 then
        (case py_int env (argv ! 1) of
           None \<Rightarrow> ([], Raised ValueError)
         | Some port \<Rightarrow> start_server env port)
      else start_server env 3000)"

text \<open>
  The exit status of the process, by the interpreter's rule: 0 when the script runs to
  its end, 1 when an exception reaches the top level (the traceback is printed), none
  while it serves. (A keyboard interrupt at the top level would end the process by the
  signal instead; none reaches it from \<open>start_server\<close>, which catches it.)
\<close>

fun exit_status :: "outcome \<Rightarrow> nat option" where
  "exit_status Returned = Some 0"
| "exit_status (Raised e) = Some 1"
| "exit_status Runs_forever = None"

text \<open>
  An instance of the environment for the examples. \<open>decimal_literal\<close> reads an optional
  sign and decimal digits, as \<open>int\<close> does on such text. Port 3000 is taken, a port
  outside 0..65535 makes the bind raise \<open>OverflowError\<close>, any other port is free; the
  browser opens; the operator ends the serving loop with Ctrl+C. \<open>eaddrinuse\<close> is the
  platform's number for "address already in use".
\<close>

fun digits :: "string \<Rightarrow> nat \<Rightarrow> nat option" where
  "digits [] acc = Some acc"
| "digits (c # cs) acc =
     (if 48 \<le> (of_char c :: nat) \<and> (of_char c :: nat) \<le> 57
      then digits cs (10 * acc + (of_char c - 48))
      else None)"

definition decimal_literal :: "string \<Rightarrow> int option" where
  "decimal_literal s =
     (case s of
        [] \<Rightarrow> None
      | c # cs \<Rightarrow>
          if c = CHR ''-'' then (if cs = [] then None else map_option (\<lambda>n. - int n) (digits cs 0))
          else if c = CHR ''+'' then (if cs = [] then None else map_option int (digits cs 0))
          else map_option int (digits s 0))"

definition example_env :: "int \<Rightarrow> env" where
  "example_env eaddrinuse =
     \<lparr>py_int = decimal_literal,
      abspath_public = ''/srv/scheduler/public'',
      server_bind = (\<lambda>port.
        if port < 0 \<or> 65535 < port then Some OverflowError
        else if port = 3000 then Some (OSError (Some eaddrinuse) ''Address already in use'')
        else None),
      webbrowser_open = (\<lambda>url. None),
      serve_forever = Some KeyboardInterrupt\<rparr>"

section \<open>Properties of the request handler\<close>

lemma startswith_prefix: "startswith s p = prefix p s"
  by (induction s p rule: startswith.induct) auto

lemma contains_sublist: "contains sub s = sublist sub s"
  by (induction s) (simp_all add: startswith_prefix sublist_Cons_right)

lemma handle_api_request_wfile:
  "wfile (handle_api_request lib (request p)) =
     [mock_head lib ''application/json'', Data (mock_data p)]"
  by (simp add: handle_api_request_def send_response_def send_header_def end_headers_def
      super_end_headers_def wfile_write_def request_def mock_head_def no_cache_def Let_def)

lemma send_mock_socketio_wfile:
  "wfile (send_mock_socketio lib (request p)) =
     [mock_head lib ''application/javascript'', Data mock_socketio]"
  by (simp add: send_mock_socketio_def send_response_def send_header_def end_headers_def
      super_end_headers_def wfile_write_def request_def mock_head_def no_cache_def Let_def)

lemma rewrite_root:
  "(if path (request p) = ''/'' then (request p)\<lparr>path := ''/index.html''\<rparr> else request p) =
   request (if p = ''/'' then ''/index.html'' else p)"
  by (simp add: request_def)

lemma do_GET_request:
  "do_GET lib (request p) =
     (let q = (if p = ''/'' then ''/index.html'' else p)
      in if startswith q ''/api/'' then handle_api_request lib (request q)
         else if startswith q ''/socket.io/'' then send_mock_socketio lib (request q)
         else fold (run_call lib) (super_do_GET lib q) (request q))"
  unfolding do_GET_def rewrite_root by (simp add: request_def Let_def)

lemma respond_api:
  assumes "startswith p ''/api/''"
  shows "respond lib p = [mock_head lib ''application/json'', Data (mock_data p)]"
proof -
  from assms have "p \<noteq> ''/''" by auto
  with assms show ?thesis
    by (simp add: respond_def do_GET_request handle_api_request_wfile)
qed

lemma respond_socketio:
  assumes "startswith p ''/socket.io/''"
  shows "respond lib p = [mock_head lib ''application/javascript'', Data mock_socketio]"
proof -
  from assms have "p \<noteq> ''/''" and "\<not> startswith p ''/api/''"
    by (auto simp: startswith_prefix prefix_def)
  with assms show ?thesis
    by (simp add: respond_def do_GET_request send_mock_socketio_wfile)
qed

lemma mock_data_first_match: "mock_data p = spec_first_match p"
  by (simp add: mock_data_def spec_first_match_def spec_api_sequence_def contains_sublist)

lemma run_call_heads:
  assumes "\<And>ls. Head ls \<in> set (wfile h) \<Longrightarrow> suffix no_cache ls"
    and "Head ls \<in> set (wfile (run_call lib c h))"
  shows "suffix no_cache ls"
proof (cases c)
  case End_headers
  with assms show ?thesis
    by (auto simp: end_headers_def send_header_def super_end_headers_def no_cache_def
        suffix_def Let_def)
next
  case (Send_response code)
  with assms show ?thesis
    by (auto simp: send_response_def send_header_def Let_def)
next
  case (Send_header keyword v)
  with assms show ?thesis
    by (auto simp: send_header_def)
next
  case (Write s)
  with assms show ?thesis
    by (auto simp: wfile_write_def)
qed

lemma fold_run_call_heads:
  assumes "\<And>ls. Head ls \<in> set (wfile h) \<Longrightarrow> suffix no_cache ls"
    and "Head ls \<in> set (wfile (fold (run_call lib) cs h))"
  shows "suffix no_cache ls"
  using assms
proof (induction cs arbitrary: h)
  case Nil
  then show ?case by simp
next
  case (Cons c cs)
  show ?case
  proof (rule Cons.IH [of "run_call lib c h"])
    fix ks
    assume "Head ks \<in> set (wfile (run_call lib c h))"
    with Cons.prems(1) show "suffix no_cache ks"
      by (rule run_call_heads)
  next
    from Cons.prems(2) show "Head ls \<in> set (wfile (fold (run_call lib) cs (run_call lib c h)))"
      by simp
  qed
qed

text \<open>
  The inherited \<open>do_GET\<close> sends one header block for each of its calls of
  \<open>end_headers\<close>, and no other.
\<close>

lemma run_call_head_count:
  "length (filter is_head (wfile (run_call lib c h))) =
     length (filter is_head (wfile h)) + (if c = End_headers then 1 else 0)"
  by (cases c)
    (simp_all add: send_response_def send_header_def end_headers_def super_end_headers_def
      wfile_write_def Let_def)

lemma fold_run_call_head_count:
  "length (filter is_head (wfile (fold (run_call lib) cs h))) =
     length (filter is_head (wfile h)) + count_list cs End_headers"
  by (induction cs arbitrary: h) (simp_all add: run_call_head_count)

lemma respond_static:
  assumes "\<not> startswith p ''/api/''" and "\<not> startswith p ''/socket.io/''" and "p \<noteq> ''/''"
  shows "respond lib p = wfile (fold (run_call lib) (super_do_GET lib p) (request p))"
  using assms by (simp add: respond_def do_GET_request)

lemma respond_static_head_count:
  assumes "\<not> startswith p ''/api/''" and "\<not> startswith p ''/socket.io/''" and "p \<noteq> ''/''"
  shows "length (filter is_head (respond lib p)) = count_list (super_do_GET lib p) End_headers"
  using assms by (simp add: respond_static fold_run_call_head_count request_def)

lemma respond_root:
  "respond lib ''/'' =
     wfile (fold (run_call lib) (super_do_GET lib ''/index.html'') (request ''/index.html''))"
  by (simp add: respond_def do_GET_request Let_def)

subsection \<open>The API mock\<close>

text \<open>
  C1, amended. For every GET request whose path begins with \<open>/api/\<close>, contains
  \<open>/api/hardware\<close> and does not contain \<open>/api/csv/sessions\<close>, the response is one header
  block with status 200 and content type \<open>application/json\<close>, followed by exactly the
  hardware body.
\<close>

theorem api_hardware_response:
  assumes \<open>startswith p ''/api/''\<close>
    and \<open>contains ''/api/hardware'' p\<close>
    and \<open>\<not> contains ''/api/csv/sessions'' p\<close>
  shows \<open>respond lib p =
     [mock_head lib ''application/json'',
      Data ''{"success": true, "hardware": {"debuggers": [], "platforms": []}}'']\<close>
  using assms by (simp add: respond_api mock_data_def)

theorem api_hardware_response_witness:
  \<open>startswith ''/api/hardware'' ''/api/'' \<and>
   contains ''/api/hardware'' ''/api/hardware'' \<and>
   \<not> contains ''/api/csv/sessions'' ''/api/hardware'' \<and>
   respond example_lib ''/api/hardware'' =
     [Head [Status 200,
            Header ''Server'' ''SimpleHTTP/0.6 Python/3.12.3'',
            Header ''Date'' ''Wed, 04 Nov 2026 12:00:00 GMT'',
            Header ''Content-type'' ''application/json'',
            Header ''Cache-Control'' ''no-cache, no-store, must-revalidate'',
            Header ''Pragma'' ''no-cache'',
            Header ''Expires'' ''0''],
      Data ''{"success": true, "hardware": {"debuggers": [], "platforms": []}}'']\<close>
  using api_hardware_response [of \<open>''/api/hardware''\<close> example_lib]
  by (simp add: mock_head_def no_cache_def example_lib_def)

text \<open>
  C1 as stated fails: the sessions test comes first in the chain, so a path that
  contains both sub-paths gets the sessions body, not the hardware body.
\<close>

theorem api_hardware_response_counterexample:
  \<open>startswith ''/api/csv/sessions?from=/api/hardware'' ''/api/'' \<and>
   contains ''/api/hardware'' ''/api/csv/sessions?from=/api/hardware'' \<and>
   respond example_lib ''/api/csv/sessions?from=/api/hardware'' =
     [mock_head example_lib ''application/json'', Data ''{"success": true, "sessions": []}''] \<and>
   respond example_lib ''/api/csv/sessions?from=/api/hardware'' \<noteq>
     [mock_head example_lib ''application/json'',
      Data ''{"success": true, "hardware": {"debuggers": [], "platforms": []}}'']\<close>
  by (simp add: respond_api mock_data_def)

text \<open>
  C2. For every GET request whose path begins with \<open>/api/\<close> and contains none of the
  four known sub-paths, the response is one header block with status 200 and content
  type \<open>application/json\<close>, followed by exactly the failure body.
\<close>

theorem api_unknown_response:
  assumes \<open>startswith p ''/api/''\<close>
    and \<open>\<not> contains ''/api/csv/sessions'' p\<close>
    and \<open>\<not> contains ''/api/hardware'' p\<close>
    and \<open>\<not> contains ''/api/machines'' p\<close>
    and \<open>\<not> contains ''/api/schedule'' p\<close>
  shows \<open>respond lib p =
     [mock_head lib ''application/json'',
      Data ''{"success": false, "error": "Node.js backend not available"}'']\<close>
  using assms by (simp add: respond_api mock_data_def)

theorem api_unknown_response_witness:
  \<open>startswith ''/api/unknown-thing'' ''/api/'' \<and>
   \<not> contains ''/api/csv/sessions'' ''/api/unknown-thing'' \<and>
   \<not> contains ''/api/hardware'' ''/api/unknown-thing'' \<and>
   \<not> contains ''/api/machines'' ''/api/unknown-thing'' \<and>
   \<not> contains ''/api/schedule'' ''/api/unknown-thing'' \<and>
   respond example_lib ''/api/unknown-thing'' =
     [Head [Status 200,
            Header ''Server'' ''SimpleHTTP/0.6 Python/3.12.3'',
            Header ''Date'' ''Wed, 04 Nov 2026 12:00:00 GMT'',
            Header ''Content-type'' ''application/json'',
            Header ''Cache-Control'' ''no-cache, no-store, must-revalidate'',
            Header ''Pragma'' ''no-cache'',
            Header ''Expires'' ''0''],
      Data ''{"success": false, "error": "Node.js backend not available"}'']\<close>
  using api_unknown_response [of \<open>''/api/unknown-thing''\<close> example_lib]
  by (simp add: mock_head_def no_cache_def example_lib_def)

text \<open>
  C9. For every GET path that begins with \<open>/api/\<close>, the body is the one the ordered
  first match over the four sub-paths selects: the body of the first sub-path of the
  sequence that occurs in the path, the failure body when none occurs. It is always one
  of the five literals.
\<close>

theorem api_dispatch_first_match:
  assumes \<open>startswith p ''/api/''\<close>
  shows \<open>respond lib p = [mock_head lib ''application/json'', Data (spec_first_match p)] \<and>
    spec_first_match p \<in>
      {''{"success": true, "sessions": []}'',
       ''{"success": true, "hardware": {"debuggers": [], "platforms": []}}'',
       ''{"success": true, "machines": []}'',
       ''{"success": true, "schedule": {"timeSlots": [], "assignments": []}}'',
       ''{"success": false, "error": "Node.js backend not available"}''}\<close>
proof
  from assms show \<open>respond lib p = [mock_head lib ''application/json'', Data (spec_first_match p)]\<close>
    by (simp add: respond_api mock_data_first_match)
next
  have \<open>mock_data p \<in>
      {''{"success": true, "sessions": []}'',
       ''{"success": true, "hardware": {"debuggers": [], "platforms": []}}'',
       ''{"success": true, "machines": []}'',
       ''{"success": true, "schedule": {"timeSlots": [], "assignments": []}}'',
       ''{"success": false, "error": "Node.js backend not available"}''}\<close>
    by (simp add: mock_data_def)
  then show \<open>spec_first_match p \<in>
      {''{"success": true, "sessions": []}'',
       ''{"success": true, "hardware": {"debuggers": [], "platforms": []}}'',
       ''{"success": true, "machines": []}'',
       ''{"success": true, "schedule": {"timeSlots": [], "assignments": []}}'',
       ''{"success": false, "error": "Node.js backend not available"}''}\<close>
    by (simp only: mock_data_first_match)
qed

theorem api_dispatch_first_match_witness:
  \<open>startswith ''/api/machines?next=/api/hardware'' ''/api/'' \<and>
   respond example_lib ''/api/machines?next=/api/hardware'' =
     [mock_head example_lib ''application/json'',
      Data ''{"success": true, "hardware": {"debuggers": [], "platforms": []}}'']\<close>
proof -
  have \<open>spec_first_match ''/api/machines?next=/api/hardware'' =
      ''{"success": true, "hardware": {"debuggers": [], "platforms": []}}''\<close>
    by (simp add: spec_first_match_def spec_api_sequence_def flip: contains_sublist)
  with api_dispatch_first_match [of \<open>''/api/machines?next=/api/hardware''\<close> example_lib]
  show ?thesis by simp
qed

subsection \<open>The socket.io mock\<close>



subsection \<open>The root path\<close>

text \<open>
  C4. Handling a GET request for the path \<open>/\<close> leaves the handler in the same state
  (and so sends the same status, headers and body) as handling one for \<open>/index.html\<close>.
  The path is rewritten before the prefixes are looked at: both requests run the
  inherited \<open>do_GET\<close> on \<open>/index.html\<close>.
\<close>

theorem root_is_index:
  "do_GET lib (h\<lparr>path := ''/''\<rparr>) = do_GET lib (h\<lparr>path := ''/index.html''\<rparr>) \<and>
   do_GET lib (h\<lparr>path := ''/''\<rparr>) =
     fold (run_call lib) (super_do_GET lib ''/index.html'') (h\<lparr>path := ''/index.html''\<rparr>) \<and>
   respond lib ''/'' = respond lib ''/index.html''"
  by (simp add: do_GET_def respond_def request_def Let_def)

subsection \<open>The cache headers\<close>

text \<open>
  C3. Every response of the handler to a GET request carries the headers
  \<open>Cache-Control: no-cache, no-store, must-revalidate\<close>, \<open>Pragma: no-cache\<close> and
  \<open>Expires: 0\<close>, on every branch. On the API branch and on the socket.io branch the
  response is one header block followed by the body, and the block ends with the three
  headers. On the delegated branch the response has one header block for each call of
  \<open>end_headers\<close> that the inherited \<open>do_GET\<close> makes (for the path, \<open>/index.html\<close> in
  place of \<open>/\<close>), error pages included. Every header block sent, on any branch, holds
  the three headers as its last three lines.
\<close>

theorem no_cache_on_every_response:
  "(Head ls \<in> set (respond lib p) \<longrightarrow>
      Header ''Cache-Control'' ''no-cache, no-store, must-revalidate'' \<in> set ls \<and>
      Header ''Pragma'' ''no-cache'' \<in> set ls \<and>
      Header ''Expires'' ''0'' \<in> set ls \<and>
      suffix no_cache ls) \<and>
   (startswith p ''/api/'' \<or> startswith p ''/socket.io/'' \<longrightarrow>
      (\<exists>ks d. respond lib p = [Head ks, Data d] \<and> suffix no_cache ks)) \<and>
   length (filter is_head (respond lib p)) =
     (if startswith p ''/api/'' \<or> startswith p ''/socket.io/'' then 1
      else count_list (super_do_GET lib (if p = ''/'' then ''/index.html'' else p)) End_headers)"
proof (intro conjI impI)
  assume sent: "Head ls \<in> set (respond lib p)"
  have "Head ls \<in> set (wfile (fold (run_call lib) cs (request q))) \<Longrightarrow> suffix no_cache ls"
    for cs q
    by (rule fold_run_call_heads [of "request q"]) (simp_all add: request_def)
  with sent show ends: "suffix no_cache ls"
    by (auto simp: respond_def do_GET_request handle_api_request_wfile
        send_mock_socketio_wfile mock_head_def Let_def suffix_def split: if_splits)
  from ends show "Header ''Cache-Control'' ''no-cache, no-store, must-revalidate'' \<in> set ls"
    by (auto simp: suffix_def no_cache_def)
  from ends show "Header ''Pragma'' ''no-cache'' \<in> set ls"
    by (auto simp: suffix_def no_cache_def)
  from ends show "Header ''Expires'' ''0'' \<in> set ls"
    by (auto simp: suffix_def no_cache_def)
next
  assume "startswith p ''/api/'' \<or> startswith p ''/socket.io/''"
  then show "\<exists>ks d. respond lib p = [Head ks, Data d] \<and> suffix no_cache ks"
  proof
    assume "startswith p ''/api/''"
    then have "respond lib p = [mock_head lib ''application/json'', Data (mock_data p)]"
      by (rule respond_api)
    then show ?thesis
      by (simp add: mock_head_def suffix_def)
  next
    assume "startswith p ''/socket.io/''"
    then have "respond lib p = [mock_head lib ''application/javascript'', Data mock_socketio]"
      by (rule respond_socketio)
    then show ?thesis
      by (simp add: mock_head_def suffix_def)
  qed
next
  show "length (filter is_head (respond lib p)) =
     (if startswith p ''/api/'' \<or> startswith p ''/socket.io/'' then 1
      else count_list (super_do_GET lib (if p = ''/'' then ''/index.html'' else p)) End_headers)"
  proof (cases "startswith p ''/api/''")
    case True
    then show ?thesis
      by (simp add: respond_api mock_head_def)
  next
    case no_api: False
    show ?thesis
    proof (cases "startswith p ''/socket.io/''")
      case True
      then show ?thesis
        by (simp add: respond_socketio mock_head_def)
    next
      case no_socketio: False
      show ?thesis
      proof (cases "p = ''/''")
        case True
        then show ?thesis
          by (simp add: respond_root fold_run_call_head_count request_def)
      next
        case False
        with no_api no_socketio show ?thesis
          by (simp add: respond_static_head_count)
      qed
    qed
  qed
qed

theorem no_cache_on_every_response_witness:
  \<open>respond example_lib ''/api/machines'' =
     [Head [Status 200,
            Header ''Server'' ''SimpleHTTP/0.6 Python/3.12.3'',
            Header ''Date'' ''Wed, 04 Nov 2026 12:00:00 GMT'',
            Header ''Content-type'' ''application/json'',
            Header ''Cache-Control'' ''no-cache, no-store, must-revalidate'',
            Header ''Pragma'' ''no-cache'',
            Header ''Expires'' ''0''],
      Data ''{"success": true, "machines": []}''] \<and>
   length (filter is_head (respond example_lib ''/api/machines'')) = 1 \<and>
   length (filter is_head (respond example_lib ''/socket.io/socket.io.js'')) = 1 \<and>
   (\<exists>ks d. respond example_lib ''/socket.io/socket.io.js'' = [Head ks, Data d] \<and>
      suffix no_cache ks) \<and>
   respond example_lib ''/missing.css'' =
     [Head [Status 404,
            Header ''Server'' ''SimpleHTTP/0.6 Python/3.12.3'',
            Header ''Date'' ''Wed, 04 Nov 2026 12:00:00 GMT'',
            Header ''Connection'' ''close'',
            Header ''Content-Type'' ''text/html;charset=utf-8'',
            Header ''Content-Length'' ''9'',
            Header ''Cache-Control'' ''no-cache, no-store, must-revalidate'',
            Header ''Pragma'' ''no-cache'',
            Header ''Expires'' ''0''],
      Data ''Not found''] \<and>
   length (filter is_head (respond example_lib ''/missing.css'')) = 1 \<and>
   length (filter is_head (respond example_lib ''/'')) = 1 \<and>
   suffix no_cache
     [Status 404,
      Header ''Server'' ''SimpleHTTP/0.6 Python/3.12.3'',
      Header ''Date'' ''Wed, 04 Nov 2026 12:00:00 GMT'',
      Header ''Connection'' ''close'',
      Header ''Content-Type'' ''text/html;charset=utf-8'',
      Header ''Content-Length'' ''9'',
      Header ''Cache-Control'' ''no-cache, no-store, must-revalidate'',
      Header ''Pragma'' ''no-cache'',
      Header ''Expires'' ''0'']\<close>
proof -
  have api: \<open>respond example_lib ''/api/machines'' =
     [Head [Status 200,
            Header ''Server'' ''SimpleHTTP/0.6 Python/3.12.3'',
            Header ''Date'' ''Wed, 04 Nov 2026 12:00:00 GMT'',
            Header ''Content-type'' ''application/json'',
            Header ''Cache-Control'' ''no-cache, no-store, must-revalidate'',
            Header ''Pragma'' ''no-cache'',
            Header ''Expires'' ''0''],
      Data ''{"success": true, "machines": []}'']\<close>
    by (simp add: respond_api mock_data_def mock_head_def no_cache_def example_lib_def)
  have missing: "respond example_lib ''/missing.css'' =
     [Head [Status 404,
            Header ''Server'' ''SimpleHTTP/0.6 Python/3.12.3'',
            Header ''Date'' ''Wed, 04 Nov 2026 12:00:00 GMT'',
            Header ''Connection'' ''close'',
            Header ''Content-Type'' ''text/html;charset=utf-8'',
            Header ''Content-Length'' ''9'',
            Header ''Cache-Control'' ''no-cache, no-store, must-revalidate'',
            Header ''Pragma'' ''no-cache'',
            Header ''Expires'' ''0''],
      Data ''Not found'']"
    by (simp add: respond_static example_lib_def request_def send_response_def
        send_header_def end_headers_def super_end_headers_def wfile_write_def Let_def)
  have calls: "count_list (super_do_GET example_lib ''/missing.css'') End_headers = 1"
    "count_list (super_do_GET example_lib ''/index.html'') End_headers = 1"
    by (simp_all add: example_lib_def)
  have sent: "Head [Status 404,
            Header ''Server'' ''SimpleHTTP/0.6 Python/3.12.3'',
            Header ''Date'' ''Wed, 04 Nov 2026 12:00:00 GMT'',
            Header ''Connection'' ''close'',
            Header ''Content-Type'' ''text/html;charset=utf-8'',
            Header ''Content-Length'' ''9'',
            Header ''Cache-Control'' ''no-cache, no-store, must-revalidate'',
            Header ''Pragma'' ''no-cache'',
            Header ''Expires'' ''0'']
     \<in> set (respond example_lib ''/missing.css'')"
    by (simp add: missing)
  have "length (filter is_head (respond example_lib ''/api/machines'')) = 1"
    using no_cache_on_every_response [of _ example_lib "''/api/machines''"] by simp
  moreover have "length (filter is_head (respond example_lib ''/socket.io/socket.io.js'')) = 1 \<and>
    (\<exists>ks d. respond example_lib ''/socket.io/socket.io.js'' = [Head ks, Data d] \<and>
      suffix no_cache ks)"
    using no_cache_on_every_response [of _ example_lib "''/socket.io/socket.io.js''"] by simp
  moreover have "length (filter is_head (respond example_lib ''/missing.css'')) = 1"
    using calls no_cache_on_every_response [of _ example_lib "''/missing.css''"] by simp
  moreover have "length (filter is_head (respond example_lib ''/'')) = 1"
    using calls no_cache_on_every_response [of _ example_lib "''/''"] by simp
  moreover have "suffix no_cache
     [Status 404,
      Header ''Server'' ''SimpleHTTP/0.6 Python/3.12.3'',
      Header ''Date'' ''Wed, 04 Nov 2026 12:00:00 GMT'',
      Header ''Connection'' ''close'',
      Header ''Content-Type'' ''text/html;charset=utf-8'',
      Header ''Content-Length'' ''9'',
      Header ''Cache-Control'' ''no-cache, no-store, must-revalidate'',
      Header ''Pragma'' ''no-cache'',
      Header ''Expires'' ''0'']"
    using sent no_cache_on_every_response [of _ example_lib "''/missing.css''"] by blast
  ultimately show ?thesis
    using api missing by blast
qed

section \<open>Properties of the server's start\<close>

lemma except_clauses_OSError:
  "except_clauses port (OSError errno strerror) =
     (if errno = Some 48 then
        ([Print (cross_mark @ '' Port '' @ str_int port @ '' is already in use''),
          Print (light_bulb @ '' Try a different port: python3 simple_server.py 3001'')],
         Returned)
      else
        ([Print (cross_mark @ '' Error starting server: '' @ str_OSError errno strerror)],
         Returned))"
  by (simp add: except_clauses_def)

lemma except_clauses_KeyboardInterrupt:
  "except_clauses port KeyboardInterrupt =
     ([Print (''\<newline>'' @ waving_hand @ '' Server stopped'')], Returned)"
  by (simp add: except_clauses_def)

lemma except_clauses_uncaught:
  "e = ValueError \<or> e = OverflowError \<Longrightarrow> except_clauses port e = ([], Raised e)"
  by (auto simp: except_clauses_def)

text \<open>An \<open>OSError\<close> from the bind, whatever its number, is caught: the run returns.\<close>

lemma start_server_bind_OSError:
  "server_bind env port = Some (OSError errno strerror) \<Longrightarrow>
   snd (start_server env port) = Returned"
  by (simp add: start_server_def except_clauses_OSError)

text \<open>With the number 48 the two lines about the port are printed.\<close>

lemma start_server_bind_errno_48:
  "server_bind env port = Some (OSError (Some 48) strerror) \<Longrightarrow>
   start_server env port =
     ([Bind port,
       Print (cross_mark @ '' Port '' @ str_int port @ '' is already in use''),
       Print (light_bulb @ '' Try a different port: python3 simple_server.py 3001'')],
      Returned)"
  by (simp add: start_server_def except_clauses_OSError)

text \<open>
  C6. Where "address already in use" has a number other than 48 (98 on Linux), a bind
  to a taken port prints the general error line only: the conflict is reported through
  the system's message, no other port is suggested. The run returns in either case.
\<close>

theorem port_in_use_errno_98:
  "start_server (example_env 98) 3000 =
     ([Bind 3000,
       Print (cross_mark @ '' Error starting server: [Errno 98] Address already in use'')],
      Returned)"
  by (simp add: start_server_def except_clauses_OSError example_env_def str_OSError_def
      str_int_def str_nat.simps)

text \<open>
  C7. With no command-line argument the server is started on port 3000; with one
  argument that \<open>int\<close> reads as \<open>port\<close>, it is started on \<open>port\<close>. Starting on a port
  begins with the bind to that port.
\<close>

theorem port_from_command_line:
  assumes "py_int env a = Some port"
  shows "main env [prog] = start_server env 3000 \<and>
    main env [prog, a] = start_server env port \<and>
    (\<exists>out. fst (start_server env port) = Bind port # out)"
  using assms
  by (auto simp: main_def start_server_def Let_def split: option.splits prod.splits)

theorem port_from_command_line_witness:
  "py_int (example_env 98) ''3001'' = Some 3001 \<and>
   fst (main (example_env 98) [''simple_server.py'']) =
     [Bind 3000,
      Print (cross_mark @ '' Error starting server: [Errno 98] Address already in use'')] \<and>
   fst (main (example_env 98) [''simple_server.py'', ''3001'']) =
     [Bind 3001,
      Print (rocket @ '' Jenkins Test Scheduler (Frontend Only)''),
      Print (file_folder @ '' Serving files from: /srv/scheduler/public''),
      Print (globe @ '' Server running at: http://localhost:3001''),
      Print (warning_sign @ ''  Note: Backend functionality requires Node.js''),
      Print (open_book @ '' See README.md for full setup instructions''),
      Print (''\<newline>'' @ link_symbol @ '' Opening browser...''),
      Open_browser ''http://localhost:3001'',
      Print (''\<newline>'' @ stop_button @ ''  Press Ctrl+C to stop the server''),
      Serve_forever,
      Server_close,
      Print (''\<newline>'' @ waving_hand @ '' Server stopped'')]"
proof -
  have a: "py_int (example_env 98) ''3001'' = Some 3001"
    by (simp add: example_env_def decimal_literal_def)
  have "fst (start_server (example_env 98) 3000) =
     [Bind 3000,
      Print (cross_mark @ '' Error starting server: [Errno 98] Address already in use'')]"
    by (simp add: start_server_def except_clauses_OSError example_env_def str_OSError_def
        str_int_def str_nat.simps)
  moreover have "fst (start_server (example_env 98) 3001) =
     [Bind 3001,
      Print (rocket @ '' Jenkins Test Scheduler (Frontend Only)''),
      Print (file_folder @ '' Serving files from: /srv/scheduler/public''),
      Print (globe @ '' Server running at: http://localhost:3001''),
      Print (warning_sign @ ''  Note: Backend functionality requires Node.js''),
      Print (open_book @ '' See README.md for full setup instructions''),
      Print (''\<newline>'' @ link_symbol @ '' Opening browser...''),
      Open_browser ''http://localhost:3001'',
      Print (''\<newline>'' @ stop_button @ ''  Press Ctrl+C to stop the server''),
      Serve_forever,
      Server_close,
      Print (''\<newline>'' @ waving_hand @ '' Server stopped'')]"
    by (simp add: start_server_def except_clauses_KeyboardInterrupt example_env_def
        str_int_def str_nat.simps Let_def)
  ultimately show ?thesis
    using a port_from_command_line [OF a, of "''simple_server.py''"] by simp
qed

text \<open>
  C10. If a command-line argument is present and \<open>int\<close> does not read it as an integer,
  the run ends in the \<open>ValueError\<close> that \<open>int\<close> raises, which nothing catches, before
  anything is done: no bind is attempted and nothing is printed.
\<close>

theorem invalid_port_argument:
  assumes "py_int env a = None"
  shows "main env (prog # a # rest) = ([], Raised ValueError)"
  using assms by (simp add: main_def)

theorem invalid_port_argument_witness:
  "py_int (example_env 98) ''abc'' = None \<and>
   main (example_env 98) [''simple_server.py'', ''abc''] = ([], Raised ValueError)"
proof -
  have a: "py_int (example_env 98) ''abc'' = None"
    by (simp add: example_env_def decimal_literal_def)
  from a invalid_port_argument [OF a] show ?thesis
    by simp
qed

text \<open>
  The exceptions that \<open>start_server\<close> catches never reach the top level.
\<close>

lemma start_server_catches:
  "snd (start_server env port) \<noteq> Raised KeyboardInterrupt \<and>
   snd (start_server env port) \<noteq> Raised (OSError errno strerror)"
proof -
  have "r \<noteq> Raised KeyboardInterrupt \<and> r \<noteq> Raised (OSError errno strerror)"
    if "except_clauses port e = (out, r)" for e out r
    using that by (cases e) (auto simp: except_clauses_def split: if_splits)
  then show ?thesis
    by (fastforce simp: start_server_def Let_def split: option.splits prod.splits)
qed

text \<open>
  C8. Take a run that reaches \<open>start_server\<close> with a port (3000, or the one read from
  the argument) and that an exception \<open>e\<close> ends, raised by the bind or by the serving
  loop. If \<open>e\<close> is the keyboard interrupt, the last thing the run does is print the
  shutdown line, and the exit status is 0. If \<open>e\<close> is an exception that \<open>start_server\<close>
  does not catch, it reaches the top level and the exit status is 1. The same holds for
  the \<open>ValueError\<close> of an argument that \<open>int\<close> does not read.
\<close>

theorem process_exit_status:
  "((if 1 < length argv then py_int env (argv ! 1) = Some port else port = 3000) \<and>
    (server_bind env port = Some e \<or>
     server_bind env port = None \<and> serve_forever env = Some e) \<and>
    e = KeyboardInterrupt \<longrightarrow>
      exit_status (snd (main env argv)) = Some 0 \<and>
      last (fst (main env argv)) = Print (''\<newline>'' @ waving_hand @ '' Server stopped'')) \<and>
   ((if 1 < length argv then py_int env (argv ! 1) = Some port else port = 3000) \<and>
    (server_bind env port = Some e \<or>
     server_bind env port = None \<and> serve_forever env = Some e) \<and>
    (e = ValueError \<or> e = OverflowError) \<longrightarrow>
      snd (main env argv) = Raised e \<and>
      exit_status (snd (main env argv)) = Some 1) \<and>
   (1 < length argv \<and> py_int env (argv ! 1) = None \<longrightarrow>
      snd (main env argv) = Raised ValueError \<and>
      exit_status (snd (main env argv)) = Some 1)"
proof -
  have started: "main env argv = start_server env port"
    if "if 1 < length argv then py_int env (argv ! 1) = Some port else port = 3000"
    using that by (simp add: main_def split: if_splits)
  have interrupted: "snd (start_server env port) = Returned \<and>
      last (fst (start_server env port)) = Print (''\<newline>'' @ waving_hand @ '' Server stopped'')"
    if "server_bind env port = Some KeyboardInterrupt \<or>
      server_bind env port = None \<and> serve_forever env = Some KeyboardInterrupt"
    using that
    by (auto simp: start_server_def Let_def except_clauses_KeyboardInterrupt)
  have uncaught: "snd (start_server env port) = Raised e"
    if "server_bind env port = Some e \<or>
      server_bind env port = None \<and> serve_forever env = Some e"
      and "e = ValueError \<or> e = OverflowError"
    using that
    by (auto simp: start_server_def Let_def except_clauses_uncaught)
  show ?thesis
    using started interrupted uncaught
    by (auto simp: main_def)
qed

theorem process_exit_status_witness:
  "exit_status (snd (main (example_env 98) [''simple_server.py'', ''3001''])) = Some 0 \<and>
   last (fst (main (example_env 98) [''simple_server.py'', ''3001''])) =
     Print (''\<newline>'' @ waving_hand @ '' Server stopped'') \<and>
   snd (main (example_env 98) [''simple_server.py'', ''70000'']) = Raised OverflowError \<and>
   exit_status (snd (main (example_env 98) [''simple_server.py'', ''70000''])) = Some 1 \<and>
   snd (main (example_env 98) [''simple_server.py'', ''abc'']) = Raised ValueError \<and>
   exit_status (snd (main (example_env 98) [''simple_server.py'', ''abc''])) = Some 1"
proof -
  have free: "py_int (example_env 98) ''3001'' = Some 3001"
    "server_bind (example_env 98) 3001 = None"
    "serve_forever (example_env 98) = Some KeyboardInterrupt"
    by (simp_all add: example_env_def decimal_literal_def)
  have beyond: "py_int (example_env 98) ''70000'' = Some 70000"
    "server_bind (example_env 98) 70000 = Some OverflowError"
    by (simp_all add: example_env_def decimal_literal_def)
  have unread: "py_int (example_env 98) ''abc'' = None"
    by (simp add: example_env_def decimal_literal_def)
  from free
    process_exit_status [of "[''simple_server.py'', ''3001'']" "example_env 98" 3001
      KeyboardInterrupt]
  have "exit_status (snd (main (example_env 98) [''simple_server.py'', ''3001''])) = Some 0 \<and>
    last (fst (main (example_env 98) [''simple_server.py'', ''3001''])) =
      Print (''\<newline>'' @ waving_hand @ '' Server stopped'')"
    by simp
  moreover from beyond
    process_exit_status [of "[''simple_server.py'', ''70000'']" "example_env 98" 70000
      OverflowError]
  have "snd (main (example_env 98) [''simple_server.py'', ''70000'']) = Raised OverflowError \<and>
    exit_status (snd (main (example_env 98) [''simple_server.py'', ''70000''])) = Some 1"
    by simp
  moreover from unread
    process_exit_status [of "[''simple_server.py'', ''abc'']" "example_env 98"]
  have "snd (main (example_env 98) [''simple_server.py'', ''abc'']) = Raised ValueError \<and>
    exit_status (snd (main (example_env 98) [''simple_server.py'', ''abc''])) = Some 1"
    by simp
  ultimately show ?thesis
    by simp
qed

end
